theory Spec2Isabelle
  imports Main
begin

section \<open>The dependency-injection container of go-toolkit (container/container.go)\<close>

subsection \<open>Go types and values, as far as the container inspects them\<close>

text \<open>
  The container looks at its keys, values and functions through package reflect. Of a Go
  type it uses the identity, the kind (\<open>IsNil\<close> is defined on some kinds only) and the
  method set (for \<open>AssignableTo\<close> and for the type assertion to \<open>error\<close>).
\<close>

datatype kind = KBool | KInt | KString | KStruct | KPtr | KInterface | KMap | KSlice | KChan | KFunc

datatype ty = Ty (ty_name: string) (Kind: kind) (methods: "string list")

text \<open>
  \<open>T.AssignableTo(U)\<close> for named types: the types are identical, or \<open>U\<close> is an
  interface type and \<open>T\<close> has all its methods.
\<close>

definition AssignableTo :: "ty \<Rightarrow> ty \<Rightarrow> bool" where
  "AssignableTo t u \<longleftrightarrow> t = u \<or> (Kind u = KInterface \<and> set (methods u) \<subseteq> set (methods t))"

text \<open>\<open>reflect.TypeOf(c)\<close> for \<open>c *Container\<close>, with the method set of the file.\<close>

definition containerT :: ty where
  "containerT = Ty ''*container.Container'' KPtr
     [''Bind'', ''BindValue'', ''BindWithKey'', ''Call'', ''Get'', ''Must'', ''MustGet'',
      ''Prototype'', ''PrototypeWithKey'', ''Resolve'', ''Singleton'', ''SingletonWithKey'',
      ''bindWith'', ''funcArgs'', ''instanceOfType'']"

text \<open>The dynamic type of a \<open>reflect.Type\<close> value; it has no method \<open>Error\<close>.\<close>

definition rtypeT :: ty where
  "rtypeT = Ty ''*reflect.rtype'' KPtr
     [''Align'', ''AssignableTo'', ''Bits'', ''ChanDir'', ''Comparable'', ''ConvertibleTo'',
      ''Elem'', ''Field'', ''FieldAlign'', ''FieldByIndex'', ''FieldByName'',
      ''FieldByNameFunc'', ''Implements'', ''In'', ''IsVariadic'', ''Key'', ''Kind'', ''Len'',
      ''Method'', ''MethodByName'', ''Name'', ''NumField'', ''NumIn'', ''NumMethod'',
      ''NumOut'', ''Out'', ''PkgPath'', ''Size'', ''String'']"

text \<open>
  An \<open>interface{}\<close> value: the nil interface, the pointer to the container, a
  \<open>reflect.Type\<close>, or any other value with its dynamic type; the payload \<open>None\<close> is
  the nil pointer (map, slice, channel) of that type, \<open>Some n\<close> tells the other values of
  the type apart. Function values are kept apart, in \<open>func\<close>.
\<close>

datatype val = VNil | VContainer | VType ty | VObj ty "nat option"

fun TypeOf :: "val \<Rightarrow> ty option" where
  "TypeOf VNil = None"
| "TypeOf VContainer = Some containerT"
| "TypeOf (VType t) = Some rtypeT"
| "TypeOf (VObj t p) = Some t"

text \<open>A \<open>reflect.Type\<close> (possibly nil) converted to \<open>interface{}\<close>, as \<open>==\<close> does.\<close>

fun typeVal :: "ty option \<Rightarrow> val" where
  "typeVal None = VNil"
| "typeVal (Some t) = VType t"

text \<open>
  Map keys must be hashable: \<open>c.objects[key]\<close> panics on a key whose dynamic type is a
  slice, a map or a function.
\<close>

fun hashable :: "val \<Rightarrow> bool" where
  "hashable (VObj t p) \<longleftrightarrow> Kind t \<noteq> KSlice \<and> Kind t \<noteq> KMap \<and> Kind t \<noteq> KFunc"
| "hashable v \<longleftrightarrow> True"

text \<open>
  A \<open>reflect.Value\<close> returned by \<open>Call\<close>: the declared type of the result position and
  the value in it (for an interface type, the value inside the interface or nil).
\<close>

type_synonym rvalue = "ty \<times> val"

datatype error =
    ErrObjectNotFound val
  | ErrArgNotInstanced error
  | ErrInvalidReturnValueCount
  | ErrRepeatedBind
  | ErrInvalidArgs
  | FactoryError val
  | Panic

text \<open>
  \<open>v.IsNil()\<close> panics unless the kind of \<open>v\<close> is chan, func, interface, map, pointer or
  slice.
\<close>

fun IsNil :: "rvalue \<Rightarrow> error + bool" where
  "IsNil (t, v) =
     (if Kind t = KInterface then Inr (v = VNil)
      else if Kind t \<in> {KPtr, KMap, KSlice, KChan, KFunc}
        then Inr (case v of VNil \<Rightarrow> True | VObj u None \<Rightarrow> True | _ \<Rightarrow> False)
      else Inl Panic)"

fun Interface :: "rvalue \<Rightarrow> val" where
  "Interface (t, v) = v"

text \<open>The type assertion \<open>x.(error)\<close>: \<open>x\<close> is not nil and its dynamic type has \<open>Error\<close>.\<close>

definition isError :: "val \<Rightarrow> bool" where
  "isError v \<longleftrightarrow> (case TypeOf v of None \<Rightarrow> False | Some t \<Rightarrow> ''Error'' \<in> set (methods t))"

subsection \<open>Functions, entities, the container\<close>

text \<open>
  A Go function value: its parameter types, its result types, and what a call does to the
  rest of the program (\<open>'w\<close>) and returns. The body is total: a factory or callback that
  panics or does not return, or that calls back into the container, is outside the model.
\<close>

record 'w func =
  func_in :: "ty list"
  func_out :: "ty list"
  func_body :: "val list \<Rightarrow> 'w \<Rightarrow> val list \<times> 'w"

text \<open>
  \<open>Entity\<close>; \<open>e_lock\<close> tells whether the mutex is held. The field \<open>c\<close> is the one
  container of the state.
\<close>

record 'w Entity =
  e_lock :: bool
  e_key :: val
  e_initializeFunc :: "'w func option"
  e_value :: val
  e_typ :: ty
  e_index :: nat
  e_prototype :: bool

text \<open>
  \<open>Container\<close>. An \<open>*Entity\<close> is its position in \<open>objectSlices\<close>, where every entity
  is appended when it is created. The container's own lock is taken and released inside
  each registration, which calls nothing in between, so one thread never sees it held.
\<close>

record 'w Container =
  objects :: "val \<rightharpoonup> nat"
  objectSlices :: "'w Entity list"

definition New :: "'w Container" where
  "New = \<lparr>objects = Map.empty, objectSlices = []\<rparr>"

subsection \<open>Registration\<close>

definition BindValue :: "val \<Rightarrow> val \<Rightarrow> 'w Container \<Rightarrow> error option \<times> 'w Container" where
  "BindValue key v c =
     (if v = VNil then (Some ErrInvalidArgs, c)
      else if \<not> hashable key then (Some Panic, c)
      else if objects c key \<noteq> None then (Some ErrRepeatedBind, c)
      else
        (let entity = \<lparr>e_lock = False, e_key = key, e_initializeFunc = None, e_value = v,
                        e_typ = the (TypeOf v), e_index = length (objectSlices c),
                        e_prototype = False\<rparr>
         in (None, c\<lparr>objects := (objects c)(key \<mapsto> length (objectSlices c)),
                     objectSlices := objectSlices c @ [entity]\<rparr>)))"

definition bindWith ::
  "val \<Rightarrow> ty \<Rightarrow> 'w func \<Rightarrow> bool \<Rightarrow> 'w Container \<Rightarrow> error option \<times> 'w Container" where
  "bindWith key t initialize proto c =
     (if \<not> hashable key then (Some Panic, c)
      else if objects c key \<noteq> None then (Some ErrRepeatedBind, c)
      else
        (let entity = \<lparr>e_lock = False, e_key = key, e_initializeFunc = Some initialize,
                        e_value = VNil, e_typ = t, e_index = length (objectSlices c),
                        e_prototype = proto\<rparr>
         in (None, c\<lparr>objects := (objects c)(key \<mapsto> length (objectSlices c)),
                     objectSlices := objectSlices c @ [entity]\<rparr>)))"

text \<open>\<open>initialize\<close> is \<open>None\<close> for the nil interface (\<open>IsValid\<close> is false).\<close>

definition Bind :: "'w func option \<Rightarrow> bool \<Rightarrow> 'w Container \<Rightarrow> error option \<times> 'w Container" where
  "Bind initialize proto c =
     (case initialize of
        None \<Rightarrow> (Some ErrInvalidArgs, c)
      | Some f \<Rightarrow>
          if length (func_out f) \<le> 0 then (Some ErrInvalidArgs, c)
          else (let t = func_out f ! 0 in bindWith (VType t) t f proto c))"

definition BindWithKey ::
  "val \<Rightarrow> 'w func option \<Rightarrow> bool \<Rightarrow> 'w Container \<Rightarrow> error option \<times> 'w Container" where
  "BindWithKey key initialize proto c =
     (case initialize of
        None \<Rightarrow> (Some ErrInvalidArgs, c)
      | Some f \<Rightarrow>
          if length (func_out f) \<le> 0 then (Some ErrInvalidArgs, c)
          else bindWith key (func_out f ! 0) f proto c)"

definition Prototype :: "'w func option \<Rightarrow> 'w Container \<Rightarrow> error option \<times> 'w Container" where
  "Prototype initialize c = Bind initialize True c"

definition PrototypeWithKey ::
  "val \<Rightarrow> 'w func option \<Rightarrow> 'w Container \<Rightarrow> error option \<times> 'w Container" where
  "PrototypeWithKey key initialize c = BindWithKey key initialize True c"

definition Singleton :: "'w func option \<Rightarrow> 'w Container \<Rightarrow> error option \<times> 'w Container" where
  "Singleton initialize c = Bind initialize False c"

definition SingletonWithKey ::
  "val \<Rightarrow> 'w func option \<Rightarrow> 'w Container \<Rightarrow> error option \<times> 'w Container" where
  "SingletonWithKey key initialize c = BindWithKey key initialize False c"

subsection \<open>Lookup and materialization\<close>

text \<open>
  The state of a run: the container, the rest of the program, and the log of the function
  values that have been called (a factory by the position of its entity).
\<close>

datatype event = Factory nat | Callback

record 'w state =
  cont :: "'w Container"
  world :: 'w
  trace :: "event list"

definition entity :: "'w state \<Rightarrow> nat \<Rightarrow> 'w Entity" where
  "entity s i = objectSlices (cont s) ! i"

definition updEntity :: "nat \<Rightarrow> ('w Entity \<Rightarrow> 'w Entity) \<Rightarrow> 'w state \<Rightarrow> 'w state" where
  "updEntity i g s =
     s\<lparr>cont := (cont s)\<lparr>objectSlices := (objectSlices (cont s))[i := g (entity s i)]\<rparr>\<rparr>"

definition setLock :: "nat \<Rightarrow> bool \<Rightarrow> 'w state \<Rightarrow> 'w state" where
  "setLock i b s = updEntity i (\<lambda>e. e\<lparr>e_lock := b\<rparr>) s"

definition setValue :: "nat \<Rightarrow> val \<Rightarrow> 'w state \<Rightarrow> 'w state" where
  "setValue i v s = updEntity i (\<lambda>e. e\<lparr>e_value := v\<rparr>) s"

text \<open>
  \<open>reflect.Value.Call\<close>: panics on a zero Value argument (the \<open>ValueOf\<close> of nil) and on
  an argument whose type is not assignable to the parameter's; otherwise the function
  runs, and each result comes back with the declared type of its position.
\<close>

definition reflectCall ::
  "'w func \<Rightarrow> val list \<Rightarrow> event \<Rightarrow> 'w state \<Rightarrow> (error + rvalue list) \<times> 'w state" where
  "reflectCall f args ev s =
     (if list_all2 (\<lambda>a t. case TypeOf a of None \<Rightarrow> False | Some u \<Rightarrow> AssignableTo u t)
           args (func_in f)
      then (let (rets, w) = func_body f args (world s)
            in (Inr (zip (func_out f) rets), s\<lparr>world := w, trace := trace s @ [ev]\<rparr>))
      else (Inl Panic, s))"

text \<open>Lines 52 to 63 of \<open>createValue\<close>: from the returned values to the result.\<close>

definition factoryResult :: "rvalue list \<Rightarrow> error + val" where
  "factoryResult returnValues =
     (if length returnValues \<le> 0 then Inl ErrInvalidReturnValueCount
      else if length returnValues > 1 then
        (case IsNil (returnValues ! 1) of
           Inl p \<Rightarrow> Inl p
         | Inr isnil \<Rightarrow>
             if \<not> isnil \<and> Interface (returnValues ! 1) \<noteq> VNil
                \<and> isError (Interface (returnValues ! 1))
             then Inl (FactoryError (Interface (returnValues ! 1)))
             else Inr (Interface (returnValues ! 0)))
      else Inr (Interface (returnValues ! 0)))"

text \<open>
  The loop of \<open>Get\<close> up to its \<open>return obj.Value()\<close>: the position of the entity it
  stops at. \<open>AssignableTo\<close> panics on the nil type, which \<open>TypeOf\<close> gives for a nil key.
\<close>

definition keyReflectType :: "val \<Rightarrow> ty option" where
  "keyReflectType key = (case key of VType t \<Rightarrow> Some t | _ \<Rightarrow> TypeOf key)"

fun Get_loop :: "val \<Rightarrow> ty option \<Rightarrow> nat \<Rightarrow> 'w Entity list \<Rightarrow> error + nat option" where
  "Get_loop key krt i [] = Inr None"
| "Get_loop key krt i (obj # rest) =
     (if e_key obj = key \<or> e_key obj = typeVal krt then Inr (Some i)
      else (case krt of
              None \<Rightarrow> Inl Panic
            | Some t \<Rightarrow>
                if AssignableTo (e_typ obj) t then Inr (Some i)
                else Get_loop key krt (Suc i) rest))"

text \<open>
  The Go idiom \<open>v, err := f(); if err != nil { return nil, err }\<close> followed by the
  rest of the function: a run that does not return stays so, an error is returned with
  the state it left, a value goes on.
\<close>

definition orReturn ::
  "((error + 'a) \<times> 's) option \<Rightarrow> ('a \<Rightarrow> 's \<Rightarrow> ((error + 'b) \<times> 's) option)
     \<Rightarrow> ((error + 'b) \<times> 's) option" where
  "orReturn r k =
     (case r of
        None \<Rightarrow> None
      | Some (Inl err, s) \<Rightarrow> Some (Inl err, s)
      | Some (Inr v, s) \<Rightarrow> k v s)"

text \<open>\<open>defer e.lock.Unlock()\<close>: whatever the function returns, the lock is released.\<close>

definition deferUnlock ::
  "nat \<Rightarrow> ((error + 'a) \<times> 'w state) option \<Rightarrow> ((error + 'a) \<times> 'w state) option" where
  "deferUnlock i r = (case r of None \<Rightarrow> None | Some (x, s) \<Rightarrow> Some (x, setLock i False s))"

text \<open>Lines 51 to 63 of \<open>createValue\<close>: the call of the factory and its result.\<close>

definition callFactory ::
  "nat \<Rightarrow> 'w func \<Rightarrow> val list \<Rightarrow> 'w state \<Rightarrow> ((error + val) \<times> 'w state) option" where
  "callFactory i f argValues s =
     (case reflectCall f argValues (Factory i) s of
        (Inl p, s1) \<Rightarrow> Some (Inl p, s1)
      | (Inr returnValues, s1) \<Rightarrow> Some (factoryResult returnValues, s1))"

text \<open>
  \<open>Value\<close>, \<open>createValue\<close>, \<open>funcArgs\<close>, \<open>instanceOfType\<close> and \<open>Get\<close> call each
  other, and a factory that needs its own product makes them run forever (or wait forever
  for the entity's lock, which is not reentrant). The first argument bounds the depth of
  \<open>Value\<close> calls; \<open>None\<close> is a run that does not return within it. The recursion
  terminates on that depth, then on the order of the five functions, then on the parameter
  list.
\<close>

function Value :: "nat \<Rightarrow> nat \<Rightarrow> 'w state \<Rightarrow> ((error + val) \<times> 'w state) option"
  and createValue :: "nat \<Rightarrow> nat \<Rightarrow> 'w state \<Rightarrow> ((error + val) \<times> 'w state) option"
  and funcArgs :: "nat \<Rightarrow> ty list \<Rightarrow> 'w state \<Rightarrow> ((error + val list) \<times> 'w state) option"
  and instanceOfType :: "nat \<Rightarrow> ty \<Rightarrow> 'w state \<Rightarrow> ((error + val) \<times> 'w state) option"
  and Get :: "nat \<Rightarrow> val \<Rightarrow> 'w state \<Rightarrow> ((error + val) \<times> 'w state) option"
where
  "Value 0 i s = None"
| "Value (Suc n) i s =
     (if e_prototype (entity s i) then createValue n i s
      else if e_lock (entity s i) then None
      else
        deferUnlock i
          (let s1 = setLock i True s in
           if e_value (entity s1 i) = VNil then
             orReturn (createValue n i s1)
               (\<lambda>v s2. let s3 = setValue i v s2 in Some (Inr (e_value (entity s3 i)), s3))
           else Some (Inr (e_value (entity s1 i)), s1)))"
| "createValue n i s =
     (case e_initializeFunc (entity s i) of
        None \<Rightarrow> Some (Inl Panic, s)
      | Some f \<Rightarrow> orReturn (funcArgs n (func_in f) s) (callFactory i f))"
| "funcArgs n [] s = Some (Inr [], s)"
| "funcArgs n (argType # ts) s =
     orReturn (instanceOfType n argType s)
       (\<lambda>v s1. orReturn (funcArgs n ts s1) (\<lambda>vs s2. Some (Inr (v # vs), s2)))"
| "instanceOfType n t s =
     (if AssignableTo containerT t then Some (Inr VContainer, s)
      else
        (case Get n (VType t) s of
           None \<Rightarrow> None
         | Some (Inl err, s1) \<Rightarrow> Some (Inl (ErrArgNotInstanced err), s1)
         | Some (Inr arg, s1) \<Rightarrow> Some (Inr arg, s1)))"
| "Get n key s =
     (case Get_loop key (keyReflectType key) 0 (objectSlices (cont s)) of
        Inl p \<Rightarrow> Some (Inl p, s)
      | Inr None \<Rightarrow> Some (Inl (ErrObjectNotFound key), s)
      | Inr (Some i) \<Rightarrow> Value n i s)"
  by pat_completeness auto
termination
  by (relation "inv_image (less_than <*lex*> less_than <*lex*> less_than)
        (\<lambda>x. case x of
           Inl (Inl (n, i, s)) \<Rightarrow> (n, 0::nat, 0::nat)
         | Inl (Inr (n, i, s)) \<Rightarrow> (n, 4, 0)
         | Inr (Inl (n, ts, s)) \<Rightarrow> (n, 3, length ts)
         | Inr (Inr (Inl (n, t, s))) \<Rightarrow> (n, 2, 0)
         | Inr (Inr (Inr (n, k, s))) \<Rightarrow> (n, 1, 0))") auto

definition Call ::
  "nat \<Rightarrow> 'w func option \<Rightarrow> 'w state \<Rightarrow> ((error + val list) \<times> 'w state) option" where
  "Call n callback s =
     (case callback of
        None \<Rightarrow> Some (Inl ErrInvalidArgs, s)
      | Some f \<Rightarrow>
          orReturn (funcArgs n (func_in f) s)
            (\<lambda>args s1.
               case reflectCall f args Callback s1 of
                 (Inl p, s2) \<Rightarrow> Some (Inl p, s2)
               | (Inr returnValues, s2) \<Rightarrow> Some (Inr (map Interface returnValues), s2)))"

definition Resolve :: "nat \<Rightarrow> 'w func option \<Rightarrow> 'w state \<Rightarrow> (error option \<times> 'w state) option" where
  "Resolve n callback s =
     (case Call n callback s of
        None \<Rightarrow> None
      | Some (Inl err, s1) \<Rightarrow> Some (Some err, s1)
      | Some (Inr results, s1) \<Rightarrow> Some (None, s1))"

subsection \<open>What a run may change\<close>

text \<open>
  Between two states of a run: no entity is added, removed or re-keyed; of an entity only
  the cached value differs, and not the cached value of a prototype, of an entity whose
  lock is held, or of an entity whose value is already set; the log grows, and not by a
  call of the callback.
\<close>

definition frame :: "'w state \<Rightarrow> 'w state \<Rightarrow> bool" where
  "frame s s' \<longleftrightarrow>
     objects (cont s') = objects (cont s) \<and>
     length (objectSlices (cont s')) = length (objectSlices (cont s)) \<and>
     (\<forall>j<length (objectSlices (cont s)).
        (entity s' j)\<lparr>e_value := VNil\<rparr> = (entity s j)\<lparr>e_value := VNil\<rparr> \<and>
        (e_prototype (entity s j) \<or> e_lock (entity s j) \<or> e_value (entity s j) \<noteq> VNil
           \<longrightarrow> e_value (entity s' j) = e_value (entity s j))) \<and>
     (\<exists>evs. trace s' = trace s @ evs \<and> Callback \<notin> set evs)"

subsection \<open>Registration calls as data\<close>

text \<open>
  The three registration functions behind one type, to speak of any two of them in a row;
  \<open>Prototype\<close>, \<open>PrototypeWithKey\<close>, \<open>Singleton\<close> and \<open>SingletonWithKey\<close> are
  \<open>Bind\<close> and \<open>BindWithKey\<close> with the flag fixed. \<open>bindKey\<close> is the key a call
  registers under once its arguments have passed the checks for \<open>ErrInvalidArgs\<close>.
\<close>

datatype 'w bindCall =
    CallBindValue val val
  | CallBind "'w func option" bool
  | CallBindWithKey val "'w func option" bool

fun runBind :: "'w bindCall \<Rightarrow> 'w Container \<Rightarrow> error option \<times> 'w Container" where
  "runBind (CallBindValue key v) c = BindValue key v c"
| "runBind (CallBind initialize proto) c = Bind initialize proto c"
| "runBind (CallBindWithKey key initialize proto) c = BindWithKey key initialize proto c"


subsection \<open>The lookup order as the specification words it\<close>


subsection \<open>Example types, functions and registries\<close>

definition fooT :: ty where
  "fooT = Ty ''Foo'' KStruct []"


definition intT :: ty where
  "intT = Ty ''int'' KInt []"

definition anyT :: ty where
  "anyT = Ty ''interface {}'' KInterface []"

definition errorT :: ty where
  "errorT = Ty ''error'' KInterface [''Error'']"

definition errorStringT :: ty where
  "errorStringT = Ty ''*errors.errorString'' KPtr [''Error'']"

definition barPtrT :: ty where
  "barPtrT = Ty ''*Bar'' KPtr []"

text \<open>
  The rest of the program is a counter here. \<open>func() Foo\<close>, a new \<open>Foo\<close> at each call;
  \<open>func() interface{}\<close>, always nil; \<open>func() (Foo, error)\<close>, always failing;
  \<open>func() (Foo, *Bar)\<close> and \<open>func() (Foo, int)\<close>, whose second result is not an error;
  and a callback \<open>func(c *Container, n int)\<close>.
\<close>

definition factory_foo :: "nat func" where
  "factory_foo = \<lparr>func_in = [], func_out = [fooT],
      func_body = (\<lambda>args w. ([VObj fooT (Some w)], Suc w))\<rparr>"

definition factory_nil :: "nat func" where
  "factory_nil = \<lparr>func_in = [], func_out = [anyT],
      func_body = (\<lambda>args w. ([VNil], Suc w))\<rparr>"

definition factory_err :: "nat func" where
  "factory_err = \<lparr>func_in = [], func_out = [fooT, errorT],
      func_body = (\<lambda>args w. ([VObj fooT (Some 0), VObj errorStringT (Some 1)], Suc w))\<rparr>"

definition factory_pair :: "nat func" where
  "factory_pair = \<lparr>func_in = [], func_out = [fooT, barPtrT],
      func_body = (\<lambda>args w. ([VObj fooT (Some w), VObj barPtrT (Some 1)], Suc w))\<rparr>"

definition factory_foo_int :: "nat func" where
  "factory_foo_int = \<lparr>func_in = [], func_out = [fooT, intT],
      func_body = (\<lambda>args w. ([VObj fooT (Some w), VObj intT (Some 5)], Suc w))\<rparr>"

definition callback_foo :: "nat func" where
  "callback_foo = \<lparr>func_in = [containerT, intT], func_out = [],
      func_body = (\<lambda>args w. ([], Suc w))\<rparr>"

text \<open>A state in which nothing has been called yet.\<close>

definition fresh :: "'w Container \<Rightarrow> 'w \<Rightarrow> 'w state" where
  "fresh c w = \<lparr>cont = c, world = w, trace = []\<rparr>"

text \<open>\<open>Singleton(f)\<close> or \<open>Prototype(f)\<close> on a new container.\<close>

definition bound :: "bool \<Rightarrow> nat func \<Rightarrow> nat Container" where
  "bound proto f = snd (Bind (Some f) proto New)"


section \<open>Properties\<close>

subsection \<open>Updates of one entity\<close>

lemma entity_updEntity [simp]:
  "entity (updEntity i g s) j =
     (if j = i \<and> i < length (objectSlices (cont s)) then g (entity s i) else entity s j)"
  by (cases "i < length (objectSlices (cont s))")
     (simp_all add: entity_def updEntity_def nth_list_update list_update_beyond)

lemma length_updEntity [simp]:
  "length (objectSlices (cont (updEntity i g s))) = length (objectSlices (cont s))"
  by (simp add: updEntity_def)

lemma objects_updEntity [simp]: "objects (cont (updEntity i g s)) = objects (cont s)"
  by (simp add: updEntity_def)

lemma trace_updEntity [simp]: "trace (updEntity i g s) = trace s"
  by (simp add: updEntity_def)

lemma world_updEntity [simp]: "world (updEntity i g s) = world s"
  by (simp add: updEntity_def)

lemma frame_refl [simp]: "frame s s"
  by (simp add: frame_def)

lemma Entity_eq_upto_value:
  "a\<lparr>e_value := VNil\<rparr> = b\<lparr>e_value := VNil\<rparr> \<longleftrightarrow>
     e_lock a = e_lock b \<and> e_key a = e_key b \<and> e_initializeFunc a = e_initializeFunc b \<and>
     e_typ a = e_typ b \<and> e_index a = e_index b \<and> e_prototype a = e_prototype b \<and>
     Entity.more a = Entity.more b"
  by (cases a, cases b) auto

lemma frame_trans: "frame s s' \<Longrightarrow> frame s' s'' \<Longrightarrow> frame s s''"
  unfolding frame_def Entity_eq_upto_value
  apply (intro conjI)
     apply simp
    apply simp
   apply (metis)
  apply (elim conjE exE)
  subgoal for evs evs' by (rule exI[of _ "evs @ evs'"]) auto
  done

lemma orReturn_Some:
  "orReturn r k = Some (x, s') \<Longrightarrow>
     (\<exists>e. r = Some (Inl e, s') \<and> x = Inl e) \<or> (\<exists>v s1. r = Some (Inr v, s1) \<and> k v s1 = Some (x, s'))"
  by (auto simp: orReturn_def split: option.splits sum.splits prod.splits)

lemma reflectCall_frame: "reflectCall f a (Factory i) s = (r, s') \<Longrightarrow> frame s s'"
  by (auto simp: reflectCall_def frame_def entity_def split: if_splits prod.splits)

lemma callFactory_frame: "callFactory i f a s = Some (r, s') \<Longrightarrow> frame s s'"
  by (auto simp: callFactory_def split: prod.splits sum.splits dest: reflectCall_frame)

lemma Value_step_frame:
  assumes "\<not> e_prototype (entity s i)" "\<not> e_lock (entity s i)"
    and "frame (setLock i True s) s2"
    and "s3 = s2 \<or> (e_value (entity s i) = VNil \<and> s3 = setValue i v s2)"
  shows "frame s (setLock i False s3)"
  using assms unfolding frame_def Entity_eq_upto_value setLock_def setValue_def
  apply (intro conjI)
     apply auto[1]
    apply auto[1]
   apply (auto)[1]
  apply auto
  done


subsection \<open>Every run keeps the frame\<close>

lemma frame_all:
  fixes s :: "'w state" and s1 :: "'w state" and s2 :: "'w state" and s3 :: "'w state"
    and s4 :: "'w state"
  shows "Value n i s = Some (r, s') \<Longrightarrow> frame s s'"
    and "createValue n1 i1 s1 = Some (r1, s1') \<Longrightarrow> frame s1 s1'"
    and "funcArgs n2 ts s2 = Some (rs, s2') \<Longrightarrow> frame s2 s2'"
    and "instanceOfType n3 t s3 = Some (r3, s3') \<Longrightarrow> frame s3 s3'"
    and "Get n4 k s4 = Some (r4, s4') \<Longrightarrow> frame s4 s4'"
proof (induction n i s and n1 i1 s1 and n2 ts s2 and n3 t s3 and n4 k s4
    arbitrary: r s' and r1 s1' and rs s2' and r3 s3' and r4 s4'
    rule: Value_createValue_funcArgs_instanceOfType_Get.induct)
  case (1 i s)
  then show ?case by simp
next
  case (2 n i s)
  show ?case
  proof (cases "e_prototype (entity s i)")
    case True
    with 2 show ?thesis by simp
  next
    case False
    with "2.prems" have nl: "\<not> e_lock (entity s i)" by (auto split: if_splits)
    show ?thesis
    proof (cases "e_value (entity s i) = VNil")
      case True
      then have vn: "e_value (entity (setLock i True s) i) = VNil"
        by (simp add: setLock_def)
      from "2.prems" False nl vn obtain x sx where
        o: "orReturn (createValue n i (setLock i True s))
              (\<lambda>v s2. let s3 = setValue i v s2 in Some (Inr (e_value (entity s3 i)), s3)) = Some (x, sx)"
        and s': "s' = setLock i False sx"
        by (auto simp: deferUnlock_def Let_def split: option.splits)
      from orReturn_Some[OF o] show ?thesis
      proof
        assume "\<exists>e. createValue n i (setLock i True s) = Some (Inl e, sx) \<and> x = Inl e"
        then obtain e where "createValue n i (setLock i True s) = Some (Inl e, sx)" by blast
        from "2.IH"(2)[OF False nl refl vn this] have "frame (setLock i True s) sx" .
        from Value_step_frame[OF False nl this, of sx] s' show ?thesis by simp
      next
        assume "\<exists>v s1. createValue n i (setLock i True s) = Some (Inr v, s1) \<and>
           (let s3 = setValue i v s1 in Some (Inr (e_value (entity s3 i)), s3)) = Some (x, sx)"
        then obtain v s1 where c: "createValue n i (setLock i True s) = Some (Inr v, s1)"
          and sx: "sx = setValue i v s1" by (auto simp: Let_def)
        from "2.IH"(2)[OF False nl refl vn c] have "frame (setLock i True s) s1" .
        from Value_step_frame[OF False nl this, of sx v] sx True s' show ?thesis by simp
      qed
    next
      case nn: False
      then have vn: "e_value (entity (setLock i True s) i) \<noteq> VNil"
        by (simp add: setLock_def)
      from "2.prems" False nl vn have s': "s' = setLock i False (setLock i True s)"
        by (auto simp: deferUnlock_def Let_def split: option.splits)
      from Value_step_frame[OF False nl frame_refl, of "setLock i True s"] s' show ?thesis by simp
    qed
  qed
next
  case (3 n i s)
  show ?case
  proof (cases "e_initializeFunc (entity s i)")
    case None
    with "3.prems" show ?thesis by simp
  next
    case (Some f)
    with "3.prems" have "orReturn (funcArgs n (func_in f) s) (callFactory i f) = Some (r1, s1')"
      by simp
    from orReturn_Some[OF this] show ?thesis
      using "3.IH"[OF Some] callFactory_frame frame_trans by blast
  qed
next
  case (4 n s)
  then show ?case by simp
next
  case (5 n argType ts s)
  from "5.prems" have o: "orReturn (instanceOfType n argType s)
       (\<lambda>v s1. orReturn (funcArgs n ts s1) (\<lambda>vs s2. Some (Inr (v # vs), s2))) = Some (rs, s2')"
    by simp
  from orReturn_Some[OF o] show ?case
  proof (elim disjE exE conjE, goal_cases)
    case (1 e)
    then show ?case using "5.IH"(1) by blast
  next
    case (2 v sa)
    from orReturn_Some[OF 2(2)] have "\<exists>x. funcArgs n ts sa = Some (x, s2')" by auto
    then have "frame sa s2'" using "5.IH"(2) by blast
    with "5.IH"(1)[OF 2(1)] show ?case by (blast intro: frame_trans)
  qed
next
  case (6 n t s)
  then show ?case
    by (auto split: if_splits option.splits sum.splits prod.splits)
next
  case (7 n key s)
  then show ?case
    by (auto split: if_splits option.splits sum.splits prod.splits)
qed

subsection \<open>Reading the frame\<close>

lemma frame_length: "frame s s' \<Longrightarrow> length (objectSlices (cont s')) = length (objectSlices (cont s))"
  by (simp add: frame_def)







subsection \<open>Materialization, step by step\<close>


lemma Value_materialize:
  assumes "e_initializeFunc (entity s i) = Some f"
    and "e_prototype (entity s i) \<or> (\<not> e_lock (entity s i) \<and> e_value (entity s i) = VNil)"
    and "funcArgs n (func_in f) (if e_prototype (entity s i) then s else setLock i True s)
           = Some (Inr args, s1)"
    and "reflectCall f args (Factory i) s1 = (Inr rvs, s2)"
  shows "Value (Suc n) i s =
     (case factoryResult rvs of
        Inl err \<Rightarrow> Some (Inl err, if e_prototype (entity s i) then s2 else setLock i False s2)
      | Inr v \<Rightarrow>
          Some (if e_prototype (entity s i) then (Inr v, s2)
                else (Inr (e_value (entity (setValue i v s2) i)),
                      setLock i False (setValue i v s2))))"
proof (cases "e_prototype (entity s i)")
  case True
  with assms show ?thesis
    by (simp add: orReturn_def callFactory_def split: sum.splits)
next
  case False
  with assms have e: "e_initializeFunc (entity (setLock i True s) i) = Some f"
    "e_value (entity (setLock i True s) i) = VNil"
    by (auto simp: setLock_def)
  with assms False show ?thesis
    by (simp add: orReturn_def callFactory_def deferUnlock_def Let_def split: sum.splits)
qed







lemma factoryResult_ignored:
  "1 < length rvs \<Longrightarrow> Kind (fst (rvs ! 1)) \<in> {KPtr, KInterface, KMap, KSlice, KChan, KFunc} \<Longrightarrow>
     \<not> isError (Interface (rvs ! 1)) \<Longrightarrow> factoryResult rvs = Inr (Interface (rvs ! 0))"
  by (cases "rvs ! 1") (auto simp: factoryResult_def)

lemma materialize_frame:
  assumes "funcArgs n (func_in f) s0 = Some (Inr args, s1)"
    and "reflectCall f args (Factory i) s1 = (Inr rvs, s2)"
  shows "frame s0 s2"
  using frame_all(3)[OF assms(1)] reflectCall_frame[OF assms(2)] by (rule frame_trans)


subsection \<open>The loop of Get\<close>



subsection \<open>The examples, evaluated\<close>

lemma bound_eq:
  "func_out f = t # ts \<Longrightarrow> bound proto f =
     \<lparr>objects = [VType t \<mapsto> 0],
      objectSlices = [\<lparr>e_lock = False, e_key = VType t, e_initializeFunc = Some f,
        e_value = VNil, e_typ = t, e_index = 0, e_prototype = proto\<rparr>]\<rparr>"
  by (simp add: bound_def Bind_def bindWith_def New_def)

lemma factory_foo_simps [simp]:
  "func_in factory_foo = []" "func_out factory_foo = [fooT]"
  "func_body factory_foo args w = ([VObj fooT (Some w)], Suc w)"
  by (simp_all add: factory_foo_def)

lemmas run_defs = fresh_def entity_def setLock_def setValue_def updEntity_def deferUnlock_def
  orReturn_def callFactory_def reflectCall_def factoryResult_def isError_def

lemma factory_nil_simps [simp]:
  "func_in factory_nil = []" "func_out factory_nil = [anyT]"
  "func_body factory_nil args w = ([VNil], Suc w)"
  by (simp_all add: factory_nil_def)

lemma factory_err_simps [simp]:
  "func_in factory_err = []" "func_out factory_err = [fooT, errorT]"
  "func_body factory_err args w = ([VObj fooT (Some 0), VObj errorStringT (Some 1)], Suc w)"
  by (simp_all add: factory_err_def)

lemma factory_pair_simps [simp]:
  "func_in factory_pair = []" "func_out factory_pair = [fooT, barPtrT]"
  "func_body factory_pair args w = ([VObj fooT (Some w), VObj barPtrT (Some 1)], Suc w)"
  by (simp_all add: factory_pair_def)

lemma factory_foo_int_simps [simp]:
  "func_in factory_foo_int = []" "func_out factory_foo_int = [fooT, intT]"
  "func_body factory_foo_int args w = ([VObj fooT (Some w), VObj intT (Some 5)], Suc w)"
  by (simp_all add: factory_foo_int_def)

lemma callback_foo_simps [simp]:
  "func_in callback_foo = [containerT, intT]" "func_out callback_foo = []"
  "func_body callback_foo args w = ([], Suc w)"
  by (simp_all add: callback_foo_def)


section \<open>The claims\<close>

subsection \<open>The order of lookup\<close>




subsection \<open>Singletons\<close>







subsection \<open>Registration\<close>



lemma runBind_keeps:
  "objects c k = Some i \<Longrightarrow> objects (snd (runBind b c)) k = Some i"
  by (cases b)
     (auto simp: BindValue_def Bind_def BindWithKey_def bindWith_def Let_def
           split: if_splits option.splits)

text \<open>
  C6. Once a registration under the key \<open>k\<close> has succeeded, any registration under \<open>k\<close>
  (by \<open>BindValue\<close>, \<open>Bind\<close> or \<open>BindWithKey\<close>, singleton or prototype, with arguments
  that pass the nil and result-count checks) returns \<open>ErrRepeatedBind\<close> and leaves the
  container exactly as it was, in every later container \<open>c2\<close> that still has the index
  entry of \<open>k\<close>; registrations and runs never remove one.
\<close>


subsection \<open>Prototypes\<close>



subsection \<open>Calling with injected arguments\<close>



text \<open>
  C9. A parameter whose type is exactly the container's own type is resolved to the
  container itself, and no lookup takes place: the result does not depend on the records
  or on the depth bound, and the state is untouched. So a callback with one such parameter
  is called with the container, whatever has been registered.
\<close>

theorem instanceOfType_self:
  "instanceOfType n containerT s = Some (Inr VContainer, s) \<and>
   funcArgs n [containerT] s = Some (Inr [VContainer], s) \<and>
   Call n (Some \<lparr>func_in = [containerT], func_out = outs, func_body = b\<rparr>) s =
     Some (Inr (map Interface (zip outs (fst (b [VContainer] (world s))))),
           s\<lparr>world := snd (b [VContainer] (world s)), trace := trace s @ [Callback]\<rparr>)"
  by (simp add: AssignableTo_def orReturn_def Call_def reflectCall_def containerT_def
      split: prod.splits)

subsection \<open>A second result that is not an error\<close>

text \<open>
  C10, as the code has it. When the declared type of the second result is a pointer, an
  interface, a map, a slice, a channel or a function type, and the value returned there
  is not an error, it is ignored: the access returns the first result, and a singleton
  caches it.
\<close>

theorem second_result_ignored:
  assumes "i < length (objectSlices (cont s))" and "e_initializeFunc (entity s i) = Some f"
    and "e_prototype (entity s i) \<or> (\<not> e_lock (entity s i) \<and> e_value (entity s i) = VNil)"
    and "funcArgs n (func_in f) (if e_prototype (entity s i) then s else setLock i True s)
           = Some (Inr args, s1)"
    and "reflectCall f args (Factory i) s1 = (Inr rvs, s2)"
    and "1 < length rvs"
    and "Kind (fst (rvs ! 1)) \<in> {KPtr, KInterface, KMap, KSlice, KChan, KFunc}"
    and "\<not> isError (Interface (rvs ! 1))"
  shows "\<exists>s'. Value (Suc n) i s = Some (Inr (Interface (rvs ! 0)), s') \<and>
    (\<not> e_prototype (entity s i) \<longrightarrow> e_value (entity s' i) = Interface (rvs ! 0))"
proof -
  let ?v = "Interface (rvs ! 0)"
  note fr = materialize_frame[OF assms(4,5)]
  from frame_length[OF fr] assms(1) have l: "i < length (objectSlices (cont s2))"
    by (simp add: setLock_def split: if_splits)
  then have "e_value (entity (setValue i ?v s2) i) = ?v"
    "e_value (entity (setLock i False (setValue i ?v s2)) i) = ?v"
    by (simp_all add: setValue_def setLock_def)
  with Value_materialize[OF assms(2,3,4,5)] factoryResult_ignored[OF assms(6,7,8)]
  show ?thesis by (cases "e_prototype (entity s i)") simp_all
qed

text \<open>
  C10 fails as stated: \<open>factory_foo_int\<close> declares a second result of type \<open>int\<close>,
  which does not implement \<open>error\<close>, and returns 5 there; the access panics in
  \<open>IsNil\<close> after the factory has run, and nothing is cached.
\<close>

theorem second_result_int_panics:
  "func_out factory_foo_int ! 1 = intT \<and> \<not> isError (VObj intT (Some 5)) \<and>
   Get 1 (VType fooT) (fresh (bound False factory_foo_int) 0) =
     Some (Inl Panic, (fresh (bound False factory_foo_int) 0)\<lparr>world := 1, trace := [Factory 0]\<rparr>)"
  by (simp add: bound_eq[of _ _ "[intT]"] keyReflectType_def run_defs intT_def)

theorem second_result_ignored_witness:
  "0 < length (objectSlices (cont (fresh (bound False factory_pair) 0))) \<and>
   e_initializeFunc (entity (fresh (bound False factory_pair) 0) 0) = Some factory_pair \<and>
   \<not> e_lock (entity (fresh (bound False factory_pair) 0) 0) \<and>
   e_value (entity (fresh (bound False factory_pair) 0) 0) = VNil \<and>
   reflectCall factory_pair [] (Factory 0) (setLock 0 True (fresh (bound False factory_pair) 0)) =
     (Inr [(fooT, VObj fooT (Some 0)), (barPtrT, VObj barPtrT (Some 1))],
      (setLock 0 True (fresh (bound False factory_pair) 0))\<lparr>world := 1, trace := [Factory 0]\<rparr>) \<and>
   Kind (fst ([(fooT, VObj fooT (Some 0)), (barPtrT, VObj barPtrT (Some 1))] ! 1)) = KPtr \<and>
   VObj barPtrT (Some 1) \<noteq> VNil \<and>
   \<not> isError (Interface ([(fooT, VObj fooT (Some 0)), (barPtrT, VObj barPtrT (Some 1))] ! 1)) \<and>
   Value (Suc 0) 0 (fresh (bound False factory_pair) 0) =
     Some (Inr (VObj fooT (Some 0)),
       setValue 0 (VObj fooT (Some 0))
         ((fresh (bound False factory_pair) 0)\<lparr>world := 1, trace := [Factory 0]\<rparr>)) \<and>
   e_value (entity (setValue 0 (VObj fooT (Some 0))
         ((fresh (bound False factory_pair) 0)\<lparr>world := 1, trace := [Factory 0]\<rparr>)) 0) =
     VObj fooT (Some 0)"
proof -
  have h: "0 < length (objectSlices (cont (fresh (bound False factory_pair) 0)))"
    "e_initializeFunc (entity (fresh (bound False factory_pair) 0) 0) = Some factory_pair"
    "e_prototype (entity (fresh (bound False factory_pair) 0) 0) \<or>
    (\<not> e_lock (entity (fresh (bound False factory_pair) 0) 0) \<and>
     e_value (entity (fresh (bound False factory_pair) 0) 0) = VNil)"
    "funcArgs 0 (func_in factory_pair)
      (if e_prototype (entity (fresh (bound False factory_pair) 0) 0)
       then fresh (bound False factory_pair) 0
       else setLock 0 True (fresh (bound False factory_pair) 0)) =
     Some (Inr [], setLock 0 True (fresh (bound False factory_pair) 0))"
    "reflectCall factory_pair [] (Factory 0) (setLock 0 True (fresh (bound False factory_pair) 0)) =
     (Inr [(fooT, VObj fooT (Some 0)), (barPtrT, VObj barPtrT (Some 1))],
      (setLock 0 True (fresh (bound False factory_pair) 0))\<lparr>world := 1, trace := [Factory 0]\<rparr>)"
    "1 < length [(fooT, VObj fooT (Some 0)), (barPtrT, VObj barPtrT (Some 1))]"
    "Kind (fst ([(fooT, VObj fooT (Some 0)), (barPtrT, VObj barPtrT (Some 1))] ! 1))
       \<in> {KPtr, KInterface, KMap, KSlice, KChan, KFunc}"
    "\<not> isError (Interface ([(fooT, VObj fooT (Some 0)), (barPtrT, VObj barPtrT (Some 1))] ! 1))"
    by (simp_all add: bound_eq[of _ _ "[barPtrT]"] run_defs barPtrT_def)
  have e: "Value (Suc 0) 0 (fresh (bound False factory_pair) 0) =
     Some (Inr (VObj fooT (Some 0)),
       setValue 0 (VObj fooT (Some 0))
         ((fresh (bound False factory_pair) 0)\<lparr>world := 1, trace := [Factory 0]\<rparr>))"
    "\<not> e_prototype (entity (fresh (bound False factory_pair) 0) 0)"
    "\<not> e_lock (entity (fresh (bound False factory_pair) 0) 0)"
    "e_value (entity (fresh (bound False factory_pair) 0) 0) = VNil"
    "Kind (fst ([(fooT, VObj fooT (Some 0)), (barPtrT, VObj barPtrT (Some 1))] ! 1)) = KPtr"
    by (simp_all add: bound_eq[of _ _ "[barPtrT]"] run_defs barPtrT_def)
  from second_result_ignored[OF h] e(1,2)
  have "e_value (entity (setValue 0 (VObj fooT (Some 0))
         ((fresh (bound False factory_pair) 0)\<lparr>world := 1, trace := [Factory 0]\<rparr>)) 0) =
     VObj fooT (Some 0)" by auto
  with h e show ?thesis by simp
qed

end
